theory Spec2Isabelle
  imports Main
begin

section \<open>Python values and exceptions\<close>

text \<open>
  The pipeline passes JSON-like values around: the blob descriptor, the activity inputs and
  results, and the bodies returned by the cloud services. A dictionary is an association
  list (first binding of a key is the one looked up), so that the order of the keys written
  by the source is kept. Strings are byte strings; \<open>lower\<close> acts on the ASCII letters.
\<close>

datatype pyval =
    PNone
  | PBool bool
  | PInt int
  | PStr string
  | PList "pyval list"
  | PDict "(string \<times> pyval) list"

datatype error =
    TypeError
  | AttributeError
  | KeyError
  | IndexError
  | UnboundLocalError
  | ValueError
  | RequestException
  | ActivityFailed string

text \<open>\<open>d.get(k, default)\<close>: only a dictionary has the method.\<close>

fun dict_get :: "pyval \<Rightarrow> string \<Rightarrow> pyval \<Rightarrow> error + pyval" where
  "dict_get (PDict kvs) k d = Inr (case map_of kvs k of None \<Rightarrow> d | Some v \<Rightarrow> v)"
| "dict_get _ k d = Inl AttributeError"

text \<open>\<open>d[k]\<close> with a string key.\<close>

fun subscript_key :: "pyval \<Rightarrow> string \<Rightarrow> error + pyval" where
  "subscript_key (PDict kvs) k = (case map_of kvs k of None \<Rightarrow> Inl KeyError | Some v \<Rightarrow> Inr v)"
| "subscript_key _ k = Inl TypeError"




subsection \<open>String methods\<close>

definition ascii_uppercase :: string where
  "ascii_uppercase = ''ABCDEFGHIJKLMNOPQRSTUVWXYZ''"

definition ascii_lowercase :: string where
  "ascii_lowercase = ''abcdefghijklmnopqrstuvwxyz''"

definition lower_char :: "char \<Rightarrow> char" where
  "lower_char c =
     (case map_of (zip ascii_uppercase ascii_lowercase) c of None \<Rightarrow> c | Some l \<Rightarrow> l)"

definition lower :: "string \<Rightarrow> string" where
  "lower s = map lower_char s"

text \<open>\<open>s.split(sep)\<close> with a one-character separator: never empty.\<close>

fun split_on :: "char \<Rightarrow> string \<Rightarrow> string list" where
  "split_on c [] = [[]]"
| "split_on c (x # xs) =
     (let ws = split_on c xs in if x = c then [] # ws else (x # hd ws) # tl ws)"

definition endswith :: "string \<Rightarrow> string \<Rightarrow> bool" where
  "endswith s suffix =
     (length suffix \<le> length s \<and> drop (length s - length suffix) s = suffix)"

section \<open>The orchestration (function_app.py)\<close>

subsection \<open>Configuration and the durable runtime\<close>

text \<open>
  Modelled from the spec: \<open>Configuration.get_value\<close> (module \<open>configuration\<close> is not
  among the sources). The configuration surface is a table from names to values; a lookup
  falls back to the default given at the call.
\<close>

type_synonym configuration = "string \<Rightarrow> string option"

definition get_value :: "configuration \<Rightarrow> string \<Rightarrow> string \<Rightarrow> string" where
  "get_value config k dflt = (case config k of None \<Rightarrow> dflt | Some v \<Rightarrow> v)"

text \<open>
  An activity is an external collaborator: what its \<open>k\<close>-th attempt on an input does is
  given from outside, as the time the attempt takes (milliseconds) and whether it raised or
  returned.
\<close>

datatype outcome = Failure | Success pyval

type_synonym activities = "string \<Rightarrow> pyval \<Rightarrow> nat \<Rightarrow> nat \<times> outcome"

text \<open>
  The instance's observable history: the clock (milliseconds) and every activity attempt
  scheduled so far, as (activity name, input, start time).
\<close>

record world =
  clock :: nat
  history :: "(string \<times> pyval \<times> nat) list"

record retry_options_t =
  first_retry_interval_in_milliseconds :: nat
  max_number_of_attempts :: nat

text \<open>
  Modelled from the spec: \<open>call_activity_with_retry\<close> belongs to the durable-functions
  runtime, which is not among the sources. Per section 4.4 a call is attempted up to
  \<open>max_number_of_attempts\<close> times; after a failed attempt that is not the last one the
  runtime waits the fixed retry interval before the next attempt; a call that exhausts its
  attempts surfaces a failure of the instance.
\<close>

fun attempt_from ::
  "(nat \<Rightarrow> nat \<times> outcome) \<Rightarrow> retry_options_t \<Rightarrow> string \<Rightarrow> pyval \<Rightarrow> nat \<Rightarrow> nat \<Rightarrow> world
     \<Rightarrow> (error + pyval) \<times> world" where
  "attempt_from act opts name inp 0 k w = (Inl (ActivityFailed name), w)"
| "attempt_from act opts name inp (Suc left) k w =
     (let w1 = w\<lparr>history := history w @ [(name, inp, clock w)]\<rparr>;
          w2 = w1\<lparr>clock := clock w1 + fst (act k)\<rparr>
      in case snd (act k) of
           Success v \<Rightarrow> (Inr v, w2)
         | Failure \<Rightarrow>
             if left = 0 then (Inl (ActivityFailed name), w2)
             else attempt_from act opts name inp left (Suc k)
                    (w2\<lparr>clock := clock w2 + first_retry_interval_in_milliseconds opts\<rparr>))"

text \<open>The first attempt of a call is attempt 0, with all the attempts of the options left.\<close>

definition call_activity_with_retry ::
  "activities \<Rightarrow> string \<Rightarrow> retry_options_t \<Rightarrow> pyval \<Rightarrow> world \<Rightarrow> (error + pyval) \<times> world" where
  "call_activity_with_retry acts name opts inp w =
     attempt_from (acts name inp) opts name inp (max_number_of_attempts opts) 0 w"

subsection \<open>process_blob\<close>

record environment =
  config :: configuration
  FINAL_OUTPUT_CONTAINER :: pyval
  acts :: activities

record orchestration_context =
  get_input :: pyval
  instance_id :: string

definition audio_extensions :: "string list" where
  "audio_extensions =
     [''wav'', ''mp3'', ''opus'', ''ogg'', ''flac'', ''wma'', ''aac'', ''webm'']"

definition document_extensions :: "string list" where
  "document_extensions =
     [''pdf'', ''docx'', ''doc'', ''xlsx'', ''pptx'', ''jpg'', ''jpeg'', ''png'', ''tiff'', ''bmp'']"

definition retry_options :: retry_options_t where
  "retry_options =
     \<lparr>first_retry_interval_in_milliseconds = 5000, max_number_of_attempts = 5\<rparr>"

text \<open>
  Line 123: \<open>blob_name.lower().split('.')[-1] if '.' in blob_name else ""\<close>. The
  membership test comes first; it raises on a value that is not a container, and on a list
  or dictionary that holds \<open>'.'\<close> the method \<open>lower\<close> is missing.
\<close>

fun file_extension_of :: "pyval \<Rightarrow> error + string" where
  "file_extension_of (PStr s) =
     Inr (if CHR ''.'' \<in> set s then last (split_on (CHR ''.'') (lower s)) else [])"
| "file_extension_of (PList xs) =
     (if PStr ''.'' \<in> set xs then Inl AttributeError else Inr [])"
| "file_extension_of (PDict kvs) =
     (if ''.'' \<in> set (map fst kvs) then Inl AttributeError else Inr [])"
| "file_extension_of _ = Inl TypeError"

text \<open>
  Lines 171 to 195: enrichment and persistence. \<open>text_result\<close> is \<open>None\<close> when no branch
  of the dispatch has bound the variable; reading it then raises.
\<close>

definition enrich_and_persist ::
  "environment \<Rightarrow> string \<Rightarrow> pyval \<Rightarrow> pyval option \<Rightarrow> world \<Rightarrow> (error + pyval) \<times> world" where
  "enrich_and_persist env sub_orchestration_id blob_input text_result w =
     (case text_result of
        None \<Rightarrow> (Inl UnboundLocalError, w)
      | Some text \<Rightarrow>
          (case call_activity_with_retry (acts env) ''callAoai'' retry_options
                  (PDict [(''text_result'', text), (''instance_id'', PStr sub_orchestration_id)]) w of
             (Inl e, w1) \<Rightarrow> (Inl e, w1)
           | (Inr aoai_output, w1) \<Rightarrow>
               (case subscript_key blob_input ''name'' of
                  Inl e \<Rightarrow> (Inl e, w1)
                | Inr name \<Rightarrow>
                    (case call_activity_with_retry (acts env) ''writeToBlob'' retry_options
                            (PDict [(''json_str'', aoai_output), (''blob_name'', name),
                                    (''final_output_container'', FINAL_OUTPUT_CONTAINER env)]) w1 of
                       (Inl e, w2) \<Rightarrow> (Inl e, w2)
                     | (Inr task_result, w2) \<Rightarrow>
                         (Inr (PDict [(''blob'', blob_input), (''text_result'', aoai_output),
                                      (''task_result'', task_result)]), w2)))))"

text \<open>
  A branch of the dispatch that binds \<open>text_result\<close> to the result of an extraction
  activity and falls through to lines 171 to 195; a failed activity call ends the instance.
\<close>

definition extract_with ::
  "environment \<Rightarrow> string \<Rightarrow> pyval \<Rightarrow> string \<Rightarrow> pyval \<Rightarrow> world \<Rightarrow> (error + pyval) \<times> world" where
  "extract_with env sub_orchestration_id blob_input activity activity_input w =
     (case call_activity_with_retry (acts env) activity retry_options activity_input w of
        (Inl e, w1) \<Rightarrow> (Inl e, w1)
      | (Inr text_result, w1) \<Rightarrow>
          enrich_and_persist env sub_orchestration_id blob_input (Some text_result) w1)"

definition process_blob ::
  "environment \<Rightarrow> orchestration_context \<Rightarrow> world \<Rightarrow> (error + pyval) \<times> world" where
  "process_blob env ctx w =
     (let blob_input = get_input ctx;
          sub_orchestration_id = instance_id ctx
      in case dict_get blob_input ''name'' (PStr '''') of
           Inl e \<Rightarrow> (Inl e, w)
         | Inr blob_name \<Rightarrow>
        (case file_extension_of blob_name of
           Inl e \<Rightarrow> (Inl e, w)
         | Inr file_extension \<Rightarrow>
             if lower (get_value (config env) ''AOAI_MULTI_MODAL'' ''false'') = ''true''
                \<and> file_extension \<in> set document_extensions
             then
               (case dict_get blob_input ''name'' PNone of Inl e \<Rightarrow> (Inl e, w) | Inr n \<Rightarrow>
               (case dict_get blob_input ''container'' PNone of Inl e \<Rightarrow> (Inl e, w) | Inr c \<Rightarrow>
               (case dict_get blob_input ''uri'' PNone of Inl e \<Rightarrow> (Inl e, w) | Inr u \<Rightarrow>
                  extract_with env sub_orchestration_id blob_input ''callAoaiMultiModal''
                    (PDict [(''name'', n), (''container'', c), (''uri'', u),
                            (''instance_id'', PStr sub_orchestration_id)]) w)))
             else if lower (get_value (config env) ''AI_VISION_ENABLED'' ''false'') = ''true''
             then enrich_and_persist env sub_orchestration_id blob_input None w
             else if file_extension \<in> set audio_extensions
             then extract_with env sub_orchestration_id blob_input ''speechToText'' blob_input w
             else if file_extension \<in> set document_extensions
             then extract_with env sub_orchestration_id blob_input ''runDocIntel'' blob_input w
             else
               (Inr (PDict [(''blob'', blob_input),
                            (''error'', PStr (''Unsupported file type: '' @ file_extension)),
                            (''status'', PStr ''skipped'')]), w)))"

text \<open>
  The activity names scheduled between two states of the history, in order, one entry per
  attempt.
\<close>

definition scheduled :: "world \<Rightarrow> world \<Rightarrow> string list" where
  "scheduled w w' = map fst (drop (length (history w)) (history w'))"

subsection \<open>The HTTP trigger\<close>

text \<open>
  \<open>req.get_json()\<close> raises \<open>ValueError\<close> on a body that is not valid JSON and returns
  the parsed value otherwise; the request is given by that result. The durable client keeps
  the instances it has started, each with the orchestrator's name and its input; the runtime
  chooses the instance ids.
\<close>

datatype request_body = NotJson | Json pyval

record durable_client =
  new_instance_id :: "nat \<Rightarrow> string"
  started :: "(string \<times> string \<times> pyval) list"

datatype http_response =
    HttpResponse string nat
  | CheckStatusResponse string

definition start_new :: "durable_client \<Rightarrow> string \<Rightarrow> pyval \<Rightarrow> string \<times> durable_client" where
  "start_new client orchestrator client_input =
     (let instance = new_instance_id client (length (started client))
      in (instance, client\<lparr>started := started client @ [(instance, orchestrator, client_input)]\<rparr>))"

text \<open>
  Lines 91 to 111. Only \<open>ValueError\<close> is caught: the \<open>AttributeError\<close> of
  \<open>body.get\<close> on a body that is not a dictionary leaves the function.
\<close>

definition start_orchestrator_http ::
  "request_body \<Rightarrow> durable_client \<Rightarrow> (error + http_response) \<times> durable_client" where
  "start_orchestrator_http req client =
     (case req of
        NotJson \<Rightarrow> (Inr (HttpResponse ''Invalid JSON.'' 400), client)
      | Json body \<Rightarrow>
          (case dict_get body ''name'' PNone of
             Inl e \<Rightarrow> (Inl e, client)
           | Inr blob_name \<Rightarrow>
          (case dict_get body ''uri'' PNone of
             Inl e \<Rightarrow> (Inl e, client)
           | Inr blob_uri \<Rightarrow>
               (let blob_input = PDict [(''name'', blob_name), (''container'', PStr ''bronze''),
                                        (''uri'', blob_uri)];
                    started_instance = start_new client ''process_blob'' blob_input
                in (Inr (CheckStatusResponse (fst started_instance)), snd started_instance)))))"

section \<open>The speech adapter (activities/speechToText.py)\<close>










section \<open>The document adapter (function_app-new.py)\<close>

text \<open>
  Lines 141 to 146: the loop over the targets, with its \<open>break\<close>. The result is the value
  of \<open>redacted_pdf_url\<close> after the loop.
\<close>

fun select_redacted :: "pyval list \<Rightarrow> error + pyval" where
  "select_redacted [] = Inr PNone"
| "select_redacted (target # targets) =
     (case dict_get target ''location'' (PStr '''') of
        Inl e \<Rightarrow> Inl e
      | Inr (PStr location) \<Rightarrow>
          if \<not> endswith location ''.json'' then Inr (PStr location)
          else select_redacted targets
      | Inr other \<Rightarrow> Inl AttributeError)"

text \<open>
  What the function reports of a job: it returns nothing, so the report is the branch that
  it logs. The copy of the redacted file to the root of the target container (lines 149 to
  181) is the storage service's work; the report keeps the location that was selected.
\<close>

datatype report =
    Redacted pyval
  | NoRedacted
  | NoDocuments
  | NoTaskItems
  | JobFailed pyval
  | JobCancelled pyval
  | TimedOut
  | Raised error







section \<open>Concrete runs\<close>

definition always_ok :: activities where
  "always_ok name inp k = (0, Success (PStr (name @ '' done'')))"

definition pdf_input :: pyval where
  "pdf_input = PDict [(''name'', PStr ''Scan.PDF''), (''container'', PStr ''bronze''),
                      (''uri'', PStr ''https://store/bronze/Scan.PDF'')]"

definition multimodal_env :: environment where
  "multimodal_env = \<lparr>config = [''AOAI_MULTI_MODAL'' \<mapsto> ''True''],
                      FINAL_OUTPUT_CONTAINER = PStr ''final'', acts = always_ok\<rparr>"

definition pdf_context :: orchestration_context where
  "pdf_context = \<lparr>get_input = pdf_input, instance_id = ''i-1''\<rparr>"

definition world0 :: world where
  "world0 = \<lparr>clock = 0, history = []\<rparr>"

definition plain_env :: environment where
  "plain_env = \<lparr>config = Map.empty, FINAL_OUTPUT_CONTAINER = PStr ''final'', acts = always_ok\<rparr>"

definition wav_context :: orchestration_context where
  "wav_context = \<lparr>get_input = PDict [(''name'', PStr ''CALL.WAV''), (''container'', PStr ''bronze''),
       (''uri'', PStr ''https://store/bronze/CALL.WAV'')], instance_id = ''i-2''\<rparr>"

definition xyz_context :: orchestration_context where
  "xyz_context = \<lparr>get_input = PDict [(''name'', PStr ''report.xyz''), (''container'', PStr ''bronze''),
       (''uri'', PStr ''https://store/bronze/report.xyz'')], instance_id = ''i-3''\<rparr>"

definition jpg_context :: orchestration_context where
  "jpg_context = \<lparr>get_input = PDict [(''name'', PStr ''photo.jpg''), (''container'', PStr ''bronze''),
       (''uri'', PStr ''https://store/bronze/photo.jpg'')], instance_id = ''i-4''\<rparr>"










subsection \<open>Inputs of the document adapter\<close>

text \<open>
  The vocabulary of the properties of the document adapter: the location of a target (empty when
  the target has none), a target that is a dictionary whose location, if present, is a
  string, and a response of the status service that shows a job still in progress.
\<close>

definition location_of :: "pyval \<Rightarrow> string" where
  "location_of target =
     (case dict_get target ''location'' (PStr '''') of Inr (PStr l) \<Rightarrow> l | _ \<Rightarrow> '''')"

definition well_formed_target :: "pyval \<Rightarrow> bool" where
  "well_formed_target target =
     (case dict_get target ''location'' (PStr '''') of Inr (PStr l) \<Rightarrow> True | _ \<Rightarrow> False)"

definition job_targets :: "pyval list" where
  "job_targets = [PDict [(''location'', PStr ''https://store/silver/job1/bill2.json'')],
                  PDict [(''location'', PStr ''https://store/silver/job1/bill2.pdf'')],
                  PDict [(''location'', PStr ''https://store/silver/job1/extra.docx'')]]"

definition json_targets :: "pyval list" where
  "json_targets = [PDict [(''location'', PStr ''https://store/silver/job1/bill2.json'')],
                   PDict [(''location'', PStr ''https://store/silver/job1/more.json'')]]"



subsection \<open>Inputs of the speech adapter\<close>












section \<open>Properties of the orchestration\<close>

subsection \<open>What a retried call and the later stages add to the history\<close>

lemma attempt_from_history:
  "\<exists>ts. length ts \<le> left \<and> (0 < left \<longrightarrow> ts \<noteq> []) \<and>
        history (snd (attempt_from act opts name inp left k w))
          = history w @ map (\<lambda>t. (name, inp, t)) ts"
proof (induction left arbitrary: k w)
  case 0
  then show ?case by simp
next
  case (Suc left)
  show ?case
  proof (cases "snd (act k)")
    case (Success v)
    then show ?thesis
      by (intro exI[of _ "[clock w]"]) (simp add: Let_def)
  next
    case Failure
    show ?thesis
    proof (cases "left = 0")
      case True
      with Failure show ?thesis
        by (intro exI[of _ "[clock w]"]) (simp add: Let_def)
    next
      case False
      let ?w' = "w\<lparr>history := history w @ [(name, inp, clock w)],
                    clock := clock w + fst (act k) + first_retry_interval_in_milliseconds opts\<rparr>"
      from Suc.IH[of "Suc k" ?w'] obtain ts where
        ts: "length ts \<le> left"
        "history (snd (attempt_from act opts name inp left (Suc k) ?w'))
           = history ?w' @ map (\<lambda>t. (name, inp, t)) ts"
        by blast
      with Failure False show ?thesis
        by (intro exI[of _ "clock w # ts"]) (simp add: Let_def)
    qed
  qed
qed


lemma call_history:
  "\<exists>xs. xs \<noteq> [] \<and> set (map fst xs) \<subseteq> {name} \<and>
        history (snd (call_activity_with_retry a name retry_options inp w)) = history w @ xs"
proof -
  obtain ts where ts: "ts \<noteq> []"
    "history (snd (call_activity_with_retry a name retry_options inp w))
       = history w @ map (\<lambda>t. (name, inp, t)) ts"
    using attempt_from_history[where left=5 and act="a name inp" and opts=retry_options
        and name=name and inp=inp and k=0 and w=w]
    by (auto simp: call_activity_with_retry_def retry_options_def)
  show ?thesis
    by (intro exI[of _ "map (\<lambda>t. (name, inp, t)) ts"]) (auto simp: ts)
qed

lemma enrich_history:
  "\<exists>ys. set (map fst ys) \<subseteq> {''callAoai'', ''writeToBlob''} \<and>
        history (snd (enrich_and_persist env i b t w)) = history w @ ys"
proof (cases t)
  case None
  then show ?thesis by (simp add: enrich_and_persist_def)
next
  case (Some tr)
  let ?inp = "PDict [(''text_result'', tr), (''instance_id'', PStr i)]"
  obtain r1 w1 where c1:
    "call_activity_with_retry (acts env) ''callAoai'' retry_options ?inp w = (r1, w1)"
    by (cases "call_activity_with_retry (acts env) ''callAoai'' retry_options ?inp w")
  obtain xs where xs: "set (map fst xs) \<subseteq> {''callAoai''}" "history w1 = history w @ xs"
    using call_history[where name="''callAoai''" and a="acts env" and inp="?inp" and w=w] c1 by auto
  show ?thesis
  proof (cases r1)
    case (Inl e)
    with Some c1 xs show ?thesis
      by (intro exI[of _ xs]) (auto simp: enrich_and_persist_def)
  next
    case (Inr aoai_output)
    show ?thesis
    proof (cases "subscript_key b ''name''")
      case (Inl e)
      with Some c1 xs Inr show ?thesis
        by (intro exI[of _ xs]) (auto simp: enrich_and_persist_def)
    next
      case nm: (Inr name)
      let ?inp2 = "PDict [(''json_str'', aoai_output), (''blob_name'', name),
                      (''final_output_container'', FINAL_OUTPUT_CONTAINER env)]"
      obtain r2 w2 where c2:
        "call_activity_with_retry (acts env) ''writeToBlob'' retry_options ?inp2 w1 = (r2, w2)"
        by (cases "call_activity_with_retry (acts env) ''writeToBlob'' retry_options ?inp2 w1")
      obtain zs where zs: "set (map fst zs) \<subseteq> {''writeToBlob''}" "history w2 = history w1 @ zs"
        using call_history[where name="''writeToBlob''" and a="acts env" and inp="?inp2" and w=w1] c2 by auto
      have "snd (enrich_and_persist env i b t w) = w2"
        using Some c1 Inr nm c2 by (cases r2) (simp_all add: enrich_and_persist_def)
      with xs zs show ?thesis
        by (intro exI[of _ "xs @ zs"]) auto
    qed
  qed
qed

lemma stage_history:
  "\<exists>xs ys. xs \<noteq> [] \<and> set (map fst xs) \<subseteq> {name} \<and>
     set (map fst ys) \<subseteq> {''callAoai'', ''writeToBlob''} \<and>
     history (snd (extract_with env i b name inp w)) = history w @ xs @ ys"
proof -
  obtain r1 w1 where c1:
    "call_activity_with_retry (acts env) name retry_options inp w = (r1, w1)"
    by (cases "call_activity_with_retry (acts env) name retry_options inp w")
  obtain xs where xs: "xs \<noteq> []" "set (map fst xs) \<subseteq> {name}" "history w1 = history w @ xs"
    using call_history[where name=name and a="acts env" and inp=inp and w=w] c1 by auto
  show ?thesis
  proof (cases r1)
    case (Inl e)
    with c1 xs show ?thesis
      by (intro exI[of _ xs] exI[of _ "[]"]) (auto simp: extract_with_def)
  next
    case (Inr text_result)
    obtain ys where ys: "set (map fst ys) \<subseteq> {''callAoai'', ''writeToBlob''}"
      "history (snd (enrich_and_persist env i b (Some text_result) w1)) = history w1 @ ys"
      using enrich_history[where env=env and i=i and b=b and t="Some text_result" and w=w1] by blast
    with c1 xs Inr show ?thesis
      by (intro exI[of _ xs] exI[of _ ys]) (auto simp: extract_with_def)
  qed
qed

lemma scheduled_stage:
  assumes "xs \<noteq> []" "set (map fst xs) \<subseteq> {name}"
    "set (map fst ys) \<subseteq> {''callAoai'', ''writeToBlob''}"
    "history w' = history w @ xs @ ys"
  shows "scheduled w w' \<noteq> [] \<and> hd (scheduled w w') = name \<and>
         set (scheduled w w') \<subseteq> {name, ''callAoai'', ''writeToBlob''}"
proof -
  have s: "scheduled w w' = map fst xs @ map fst ys"
    using assms(4) by (simp add: scheduled_def)
  have "hd (map fst xs) = name"
    using assms(1,2) by (cases xs) auto
  with s assms show ?thesis
    by (auto simp: hd_append)
qed

lemma dict_get_InrD: "dict_get b k d = Inr v \<Longrightarrow> \<exists>kvs. b = PDict kvs"
  by (cases b) auto

subsection \<open>The multimodal toggle\<close>

text \<open>
  C5: when the multimodal toggle is enabled (its configured value, lowercased, is
  \<open>true\<close>) and the extension of the file name is a document extension, the orchestration
  schedules the multimodal extraction activity first and never schedules the plain
  document-extraction activity.
\<close>

theorem multimodal_preferred:
  assumes "lower (get_value (config env) ''AOAI_MULTI_MODAL'' ''false'') = ''true''"
    and "dict_get (get_input ctx) ''name'' (PStr '''') = Inr blob_name"
    and "file_extension_of blob_name = Inr file_extension"
    and "file_extension \<in> set document_extensions"
  shows "scheduled w (snd (process_blob env ctx w)) \<noteq> [] \<and>
         hd (scheduled w (snd (process_blob env ctx w))) = ''callAoaiMultiModal'' \<and>
         ''runDocIntel'' \<notin> set (scheduled w (snd (process_blob env ctx w)))"
proof -
  obtain kvs where kvs: "get_input ctx = PDict kvs"
    using assms(2) dict_get_InrD by blast
  obtain n c u where g: "dict_get (get_input ctx) ''name'' PNone = Inr n"
    "dict_get (get_input ctx) ''container'' PNone = Inr c"
    "dict_get (get_input ctx) ''uri'' PNone = Inr u"
    by (simp add: kvs)
  have pb: "process_blob env ctx w =
      extract_with env (instance_id ctx) (get_input ctx) ''callAoaiMultiModal''
        (PDict [(''name'', n), (''container'', c), (''uri'', u),
                (''instance_id'', PStr (instance_id ctx))]) w"
    using assms g by (simp add: process_blob_def Let_def)
  obtain xs ys where h: "xs \<noteq> []" "set (map fst xs) \<subseteq> {''callAoaiMultiModal''}"
    "set (map fst ys) \<subseteq> {''callAoai'', ''writeToBlob''}"
    "history (snd (process_blob env ctx w)) = history w @ xs @ ys"
    unfolding pb using stage_history by blast
  from scheduled_stage[OF h] show ?thesis by auto
qed

theorem multimodal_preferred_witness:
  "scheduled world0 (snd (process_blob multimodal_env pdf_context world0)) \<noteq> [] \<and>
   hd (scheduled world0 (snd (process_blob multimodal_env pdf_context world0))) = ''callAoaiMultiModal'' \<and>
   ''runDocIntel'' \<notin> set (scheduled world0 (snd (process_blob multimodal_env pdf_context world0)))"
proof -
  have 1: "lower (get_value (config multimodal_env) ''AOAI_MULTI_MODAL'' ''false'') = ''true''"
    by (simp add: multimodal_env_def get_value_def lower_def lower_char_def ascii_uppercase_def ascii_lowercase_def)
  have 2: "dict_get (get_input pdf_context) ''name'' (PStr '''') = Inr (PStr ''Scan.PDF'')"
    by (simp add: pdf_context_def pdf_input_def)
  have 3: "file_extension_of (PStr ''Scan.PDF'') = Inr ''pdf''"
    by (simp add: lower_def lower_char_def ascii_uppercase_def ascii_lowercase_def)
  have 4: "''pdf'' \<in> set document_extensions"
    by (simp add: document_extensions_def)
  show ?thesis by (rule multimodal_preferred[OF 1 2 3 4])
qed

subsection \<open>The file extension\<close>








subsection \<open>Dispatch by extension\<close>

lemma audio_not_document: "e \<in> set audio_extensions \<Longrightarrow> e \<notin> set document_extensions"
  by (auto simp: audio_extensions_def document_extensions_def)

lemmas run_defs = process_blob_def extract_with_def enrich_and_persist_def
  call_activity_with_retry_def retry_options_def get_value_def lower_def lower_char_def
  ascii_uppercase_def ascii_lowercase_def audio_extensions_def document_extensions_def
  scheduled_def Let_def eval_nat_numeral

text \<open>
  C1, as the code has it: the two feature toggles come first in the dispatch. With the
  vision toggle not enabled, an audio extension schedules the speech-transcription activity
  first (and never a document activity); a document extension, with the multimodal toggle
  not enabled either, schedules the document-extraction activity first (and never the speech
  activity); any other extension, the empty one of a name without a dot included, returns
  the outcome with status \<open>skipped\<close> and error \<open>Unsupported file type: <ext>\<close> and leaves
  the history as it was: no activity is scheduled.
\<close>

theorem dispatch_by_extension:
  assumes vision: "lower (get_value (config env) ''AI_VISION_ENABLED'' ''false'') \<noteq> ''true''"
    and name: "dict_get (get_input ctx) ''name'' (PStr '''') = Inr blob_name"
    and ext: "file_extension_of blob_name = Inr file_extension"
  shows
    "(file_extension \<in> set audio_extensions \<longrightarrow>
        scheduled w (snd (process_blob env ctx w)) \<noteq> [] \<and>
        hd (scheduled w (snd (process_blob env ctx w))) = ''speechToText'' \<and>
        set (scheduled w (snd (process_blob env ctx w)))
          \<subseteq> {''speechToText'', ''callAoai'', ''writeToBlob''}) \<and>
     (file_extension \<in> set document_extensions \<and>
      lower (get_value (config env) ''AOAI_MULTI_MODAL'' ''false'') \<noteq> ''true'' \<longrightarrow>
        scheduled w (snd (process_blob env ctx w)) \<noteq> [] \<and>
        hd (scheduled w (snd (process_blob env ctx w))) = ''runDocIntel'' \<and>
        set (scheduled w (snd (process_blob env ctx w)))
          \<subseteq> {''runDocIntel'', ''callAoai'', ''writeToBlob''}) \<and>
     (file_extension \<notin> set audio_extensions \<and> file_extension \<notin> set document_extensions \<longrightarrow>
        process_blob env ctx w =
          (Inr (PDict [(''blob'', get_input ctx),
                       (''error'', PStr (''Unsupported file type: '' @ file_extension)),
                       (''status'', PStr ''skipped'')]), w))"
proof (intro conjI impI)
  assume a: "file_extension \<in> set audio_extensions"
  then have nd: "file_extension \<notin> set document_extensions"
    by (rule audio_not_document)
  have pb: "process_blob env ctx w =
      extract_with env (instance_id ctx) (get_input ctx) ''speechToText'' (get_input ctx) w"
    using vision name ext a nd by (simp add: process_blob_def Let_def)
  obtain xs ys where h: "xs \<noteq> []" "set (map fst xs) \<subseteq> {''speechToText''}"
    "set (map fst ys) \<subseteq> {''callAoai'', ''writeToBlob''}"
    "history (snd (process_blob env ctx w)) = history w @ xs @ ys"
    unfolding pb using stage_history by blast
  from scheduled_stage[OF h]
  show "scheduled w (snd (process_blob env ctx w)) \<noteq> []"
    and "hd (scheduled w (snd (process_blob env ctx w))) = ''speechToText''"
    and "set (scheduled w (snd (process_blob env ctx w)))
          \<subseteq> {''speechToText'', ''callAoai'', ''writeToBlob''}"
    by simp_all
next
  assume d: "file_extension \<in> set document_extensions \<and>
      lower (get_value (config env) ''AOAI_MULTI_MODAL'' ''false'') \<noteq> ''true''"
  then have na: "file_extension \<notin> set audio_extensions"
    using audio_not_document by blast
  have pb: "process_blob env ctx w =
      extract_with env (instance_id ctx) (get_input ctx) ''runDocIntel'' (get_input ctx) w"
    using vision name ext d na by (simp add: process_blob_def Let_def)
  obtain xs ys where h: "xs \<noteq> []" "set (map fst xs) \<subseteq> {''runDocIntel''}"
    "set (map fst ys) \<subseteq> {''callAoai'', ''writeToBlob''}"
    "history (snd (process_blob env ctx w)) = history w @ xs @ ys"
    unfolding pb using stage_history by blast
  from scheduled_stage[OF h]
  show "scheduled w (snd (process_blob env ctx w)) \<noteq> []"
    and "hd (scheduled w (snd (process_blob env ctx w))) = ''runDocIntel''"
    and "set (scheduled w (snd (process_blob env ctx w)))
          \<subseteq> {''runDocIntel'', ''callAoai'', ''writeToBlob''}"
    by simp_all
next
  assume "file_extension \<notin> set audio_extensions \<and> file_extension \<notin> set document_extensions"
  then show "process_blob env ctx w =
          (Inr (PDict [(''blob'', get_input ctx),
                       (''error'', PStr (''Unsupported file type: '' @ file_extension)),
                       (''status'', PStr ''skipped'')]), w)"
    using vision name ext by (simp add: process_blob_def Let_def)
qed



theorem dispatch_by_extension_witness:
  "hd (scheduled world0 (snd (process_blob plain_env wav_context world0))) = ''speechToText'' \<and>
   hd (scheduled world0 (snd (process_blob plain_env jpg_context world0))) = ''runDocIntel'' \<and>
   process_blob plain_env xyz_context world0 =
     (Inr (PDict [(''blob'', get_input xyz_context),
                  (''error'', PStr ''Unsupported file type: xyz''),
                  (''status'', PStr ''skipped'')]), world0)"
proof -
  have v: "lower (get_value (config plain_env) ''AI_VISION_ENABLED'' ''false'') \<noteq> ''true''"
    and m: "lower (get_value (config plain_env) ''AOAI_MULTI_MODAL'' ''false'') \<noteq> ''true''"
    by (simp_all add: plain_env_def get_value_def lower_def lower_char_def
        ascii_uppercase_def ascii_lowercase_def)
  have n1: "dict_get (get_input wav_context) ''name'' (PStr '''') = Inr (PStr ''CALL.WAV'')"
    and n2: "dict_get (get_input jpg_context) ''name'' (PStr '''') = Inr (PStr ''photo.jpg'')"
    and n3: "dict_get (get_input xyz_context) ''name'' (PStr '''') = Inr (PStr ''report.xyz'')"
    by (simp_all add: wav_context_def jpg_context_def xyz_context_def)
  have e1: "file_extension_of (PStr ''CALL.WAV'') = Inr ''wav''"
    and e2: "file_extension_of (PStr ''photo.jpg'') = Inr ''jpg''"
    and e3: "file_extension_of (PStr ''report.xyz'') = Inr ''xyz''"
    by (simp_all add: lower_def lower_char_def ascii_uppercase_def ascii_lowercase_def)
  have a1: "''wav'' \<in> set audio_extensions"
    and a2: "''jpg'' \<in> set document_extensions"
    and a3: "''xyz'' \<notin> set audio_extensions \<and> ''xyz'' \<notin> set document_extensions"
    by (simp_all add: audio_extensions_def document_extensions_def)
  from dispatch_by_extension[OF v n1 e1, of world0] a1
  have "hd (scheduled world0 (snd (process_blob plain_env wav_context world0))) = ''speechToText''"
    by blast
  moreover from dispatch_by_extension[OF v n2 e2, of world0] a2 m
  have "hd (scheduled world0 (snd (process_blob plain_env jpg_context world0))) = ''runDocIntel''"
    by blast
  moreover from dispatch_by_extension[OF v n3 e3, of world0] a3
  have "process_blob plain_env xyz_context world0 =
     (Inr (PDict [(''blob'', get_input xyz_context),
                  (''error'', PStr ''Unsupported file type: xyz''),
                  (''status'', PStr ''skipped'')]), world0)"
    by simp
  ultimately show ?thesis by blast
qed

text \<open>
  C1 as stated, for every input file descriptor, fails: with the multimodal toggle enabled
  a file with the document extension \<open>pdf\<close> runs the multimodal activity, and the
  document-extraction activity is never scheduled.
\<close>

theorem dispatch_ignores_toggle_counterexample:
  "file_extension_of (PStr ''Scan.PDF'') = Inr ''pdf'' \<and>
   ''pdf'' \<in> set document_extensions \<and>
   scheduled world0 (snd (process_blob multimodal_env pdf_context world0))
     = [''callAoaiMultiModal'', ''callAoai'', ''writeToBlob'']"
  by (simp add: run_defs multimodal_env_def pdf_context_def pdf_input_def world0_def always_ok_def)

subsection \<open>The outcome of a run in which every stage succeeds\<close>










subsection \<open>The retry policy\<close>





section \<open>Properties of the HTTP trigger\<close>

lemma http_invalid_json:
  "start_orchestrator_http NotJson client = (Inr (HttpResponse ''Invalid JSON.'' 400), client)"
  by (simp add: start_orchestrator_http_def)

lemma http_object_body:
  "start_orchestrator_http (Json (PDict kvs)) client =
     (Inr (CheckStatusResponse (new_instance_id client (length (started client)))),
      client\<lparr>started := started client @
         [(new_instance_id client (length (started client)), ''process_blob'',
           PDict [(''name'', case map_of kvs ''name'' of None \<Rightarrow> PNone | Some v \<Rightarrow> v),
                  (''container'', PStr ''bronze''),
                  (''uri'', case map_of kvs ''uri'' of None \<Rightarrow> PNone | Some v \<Rightarrow> v)])]\<rparr>)"
  by (simp add: start_orchestrator_http_def start_new_def Let_def)

text \<open>
  C10: a body that is not valid JSON is answered with status 400 and \<open>Invalid JSON.\<close>,
  and no instance is started (\<open>http_invalid_json\<close>); a body that is a JSON object starts
  exactly one instance and is answered with the status-check response
  (\<open>http_object_body\<close>). The claim fails for a valid JSON body that is not an object,
  such as the array of descriptors that the docstring announces: \<open>body.get\<close> raises
  \<open>AttributeError\<close>, which the handler for \<open>ValueError\<close> does not catch, so the
  function leaves with the exception, no instance is started and no status-check response
  is returned.
\<close>

theorem http_array_body_not_started:
  "start_orchestrator_http (Json (PList blobs)) client = (Inl AttributeError, client)"
  by (simp add: start_orchestrator_http_def)

section \<open>Properties of the document adapter\<close>

subsection \<open>The redacted artifact\<close>

text \<open>
  C8: over a list of well-formed job-result targets, the loop of lines 141 to 146 leaves in
  \<open>redacted_pdf_url\<close> the location of the first target, in list order, whose location
  does not end with \<open>.json\<close>; when every location ends with \<open>.json\<close> it leaves
  \<open>None\<close>: no artifact is selected.
\<close>

theorem first_non_json_target:
  assumes "\<forall>t\<in>set targets. well_formed_target t"
  shows "select_redacted targets =
     (case find (\<lambda>t. \<not> endswith (location_of t) ''.json'') targets of
        None \<Rightarrow> Inr PNone
      | Some t \<Rightarrow> Inr (PStr (location_of t)))"
  using assms
proof (induction targets)
  case Nil
  then show ?case by simp
next
  case (Cons target targets)
  from Cons.prems obtain l where l: "dict_get target ''location'' (PStr '''') = Inr (PStr l)"
    by (auto simp: well_formed_target_def split: sum.splits pyval.splits)
  then have loc: "location_of target = l"
    by (simp add: location_of_def)
  from Cons have IH: "select_redacted targets =
     (case find (\<lambda>t. \<not> endswith (location_of t) ''.json'') targets of
        None \<Rightarrow> Inr PNone
      | Some t \<Rightarrow> Inr (PStr (location_of t)))"
    by simp
  show ?case
    by (simp add: l loc IH)
qed

theorem first_non_json_target_witness:
  "select_redacted job_targets = Inr (PStr ''https://store/silver/job1/bill2.pdf'') \<and>
   select_redacted json_targets = Inr PNone"
proof -
  have w1: "\<forall>t\<in>set job_targets. well_formed_target t"
    and w2: "\<forall>t\<in>set json_targets. well_formed_target t"
    by (simp_all add: job_targets_def json_targets_def well_formed_target_def)
  from first_non_json_target[OF w1] first_non_json_target[OF w2] show ?thesis
    by (simp add: job_targets_def json_targets_def location_of_def endswith_def)
qed

subsection \<open>Bounded polling\<close>






section \<open>Properties of the speech adapter\<close>

subsection \<open>The polling loop\<close>













subsection \<open>The transcription text\<close>



end
